theory Spec2Isabelle
  imports Main "HOL-Library.Word"
begin

unbundle bit_operations_syntax

section \<open>Shared data model\<close>

text \<open>
  \<open>common.Address\<close> is a 20-byte array, \<open>common.Hash\<close> a 32-byte array; both are
  compared bytewise, so a word of that width models them. Byte slices are lists of
  8-bit words. \<open>*big.Int\<close> values are unbounded integers.
\<close>

type_synonym address = "160 word"
type_synonym hash = "256 word"
type_synonym byte = "8 word"

section \<open>cmd/transactionup.go: the transaction up command\<close>

text \<open>
  The accessors of \<open>types.Transaction\<close> the command reads: \<open>To()\<close> (nil for a contract
  creation), \<open>Value()\<close>, \<open>Gas()\<close> (uint64), \<open>GasPrice()\<close>, \<open>Nonce()\<close> (uint64) and
  \<open>Data()\<close>.
\<close>

record transaction =
  To :: "address option"
  Value :: int
  Gas :: "64 word"
  GasPrice :: int
  Nonce :: "64 word"
  Data :: "byte list"

text \<open>
  Every \<open>cli.Assert\<close> and \<open>cli.ErrCheck\<close> of the command is one way for it to stop.
  The constructors name the call sites, in source order:
  line 43 (\<open>--transaction is required\<close>), line 48 (\<open>Failed to obtain transaction\<close>),
  line 49 (\<open>Transaction ... has already been mined\<close>), line 57 (\<open>Gas price must be at
  least ...\<close>), line 62 (\<open>Failed to obtain from address\<close>), line 66 (\<open>Failed to create
  transaction\<close>) and line 80 (\<open>Failed to send transaction\<close>); the last one is
  line 90 of cmd/contractsend.go (\<open>Failed to send contract method transaction\<close>).
\<close>

datatype cmd_error =
  TransactionRequired
| ObtainTransactionFailed
| AlreadyMined
| GasPriceTooLow
| FromAddressFailed
| CreateTransactionFailed
| SendTransactionFailed
| SendContractTransactionFailed

text \<open>
  Modelled from the spec: \<open>cli.Assert\<close> and \<open>cli.ErrCheck\<close> are declared in package
  \<open>cli\<close>, in a file of their own. The spec (section 7) makes each of these
  failures fatal: the pipeline stops there with exit status 1 and no later stage runs.
  \<open>Assert\<close> stops when its condition is false, \<open>ErrCheck\<close> when its error is not nil
  (here: when the fallible step returned \<open>Inl\<close>).
\<close>

definition Assert :: "bool \<Rightarrow> 'e \<Rightarrow> 'e + unit" where
  "Assert cond failure = (if cond then Inr () else Inl failure)"

definition ErrCheck :: "'x + 'a \<Rightarrow> 'e \<Rightarrow> 'e + 'a" where
  "ErrCheck res failure = (case res of Inl err \<Rightarrow> Inl failure | Inr v \<Rightarrow> Inr v)"

text \<open>
  The package-level variables of \<open>cmd\<close> that \<open>createSignedTransaction\<close> reads and the
  command writes before calling it: \<open>gasPrice\<close> (\<open>*big.Int\<close>) and \<open>nonce\<close> (\<open>int64\<close>).
  The \<open>int64\<close> is kept as its 64 bits; \<open>sint\<close> reads it as Go does.
\<close>

record globals =
  gasPrice :: int
  nonce :: "64 word"

text \<open>
  \<open>createSignedTransaction\<close> is declared elsewhere in package \<open>cmd\<close>. The model
  takes it as a parameter and records the call made to it: the two package variables
  as they stand at the call, and the five arguments.
\<close>

record create_call =
  call_globals :: globals
  call_fromAddress :: address
  call_toAddress :: "address option"
  call_amount :: int
  call_gasLimit :: "64 word"
  call_data :: "byte list"

text \<open>
  What the command is run with: the flags (\<open>transactionStr\<close>, \<open>quiet\<close>, \<open>offline\<close>,
  viper's \<open>gasprice\<close> string and the \<open>gasPrice\<close> parsed from it), the node behind
  \<open>client\<close> (\<open>TransactionByHash\<close>, \<open>SendTransaction\<close>), and the helpers of the
  other files and packages (\<open>common.HexToHash\<close>, \<open>txFrom\<close>, \<open>createSignedTransaction\<close>,
  \<open>EncodeRLP\<close>).
\<close>

record ('err, 'stx) cmd_env =
  transactionStr :: string
  quiet :: bool
  offline :: bool
  viper_gasprice :: string
  flag_gasPrice :: int
  HexToHash :: "string \<Rightarrow> hash"
  TransactionByHash :: "hash \<Rightarrow> 'err + (transaction \<times> bool)"
  txFrom :: "transaction \<Rightarrow> 'err + address"
  createSignedTransaction :: "create_call \<Rightarrow> 'err + 'stx"
  EncodeRLP :: "'stx \<Rightarrow> byte list"
  SendTransaction :: "'stx \<Rightarrow> 'err + unit"

text \<open>
  Line 51:
  \<open>new(big.Int).Add(new(big.Int).Add(tx.GasPrice(), new(big.Int).Div(tx.GasPrice(), big.NewInt(10))), big.NewInt(1))\<close>.
  \<open>big.Int.Div\<close> is Euclidean division; with the positive divisor 10 it is \<open>div\<close>
  on \<open>int\<close>, and on a positive dividend both truncate.
\<close>

definition minGasPrice :: "int \<Rightarrow> int" where
  "minGasPrice g = (g + g div 10) + 1"

text \<open>
  Lines 52 to 58: the gas price the command goes on with. Without \<open>--gasprice\<close> it is
  the computed minimum; with it, the supplied price must compare greater than the
  minimum (\<open>gasPrice.Cmp(minGasPrice) > 0\<close>).
\<close>

definition chooseGasPrice :: "string \<Rightarrow> int \<Rightarrow> int \<Rightarrow> cmd_error + int" where
  "chooseGasPrice gaspriceStr supplied m =
     (if gaspriceStr = [] then Inr m
      else case Assert (supplied > m) GasPriceTooLow of
             Inl e \<Rightarrow> Inl e
           | Inr _ \<Rightarrow> Inr supplied)"

text \<open>
  Lines 43 to 66: from the flags to the signed replacement. The result is the error
  of the first check that fails, or the call made to \<open>createSignedTransaction\<close>
  together with the signed transaction it returned. Line 64, \<open>nonce =
  int64(tx.Nonce())\<close>, keeps the 64 bits of the nonce.
\<close>

definition transactionUp_build ::
  "('err, 'stx) cmd_env \<Rightarrow> cmd_error + (create_call \<times> 'stx)" where
  "transactionUp_build env =
     (case Assert (transactionStr env \<noteq> []) TransactionRequired of
        Inl e \<Rightarrow> Inl e
      | Inr _ \<Rightarrow>
     (case ErrCheck (TransactionByHash env (HexToHash env (transactionStr env)))
             ObtainTransactionFailed of
        Inl e \<Rightarrow> Inl e
      | Inr (tx, pending) \<Rightarrow>
     (case Assert pending AlreadyMined of
        Inl e \<Rightarrow> Inl e
      | Inr _ \<Rightarrow>
     (case chooseGasPrice (viper_gasprice env) (flag_gasPrice env)
             (minGasPrice (GasPrice tx)) of
        Inl e \<Rightarrow> Inl e
      | Inr gp \<Rightarrow>
     (case ErrCheck (txFrom env tx) FromAddressFailed of
        Inl e \<Rightarrow> Inl e
      | Inr fromAddress \<Rightarrow>
     (let call = \<lparr> call_globals = \<lparr> gasPrice = gp, nonce = Nonce tx \<rparr>,
                    call_fromAddress = fromAddress,
                    call_toAddress = To tx,
                    call_amount = Value tx,
                    call_gasLimit = Gas tx,
                    call_data = Data tx \<rparr>
      in case ErrCheck (createSignedTransaction env call) CreateTransactionFailed of
           Inl e \<Rightarrow> Inl e
         | Inr signedTx \<Rightarrow> Inr (call, signedTx)))))))"

section \<open>The offline branch of transaction up and contract send\<close>

text \<open>
  \<open>hex.EncodeToString\<close> of the Go standard library: two characters of the table
  \<open>0123456789abcdef\<close> for each byte, the high four bits first
  (\<open>hextable[v>>4]\<close>, then \<open>hextable[v&0x0f]\<close>).
\<close>

definition hextable :: string where
  "hextable = ''0123456789abcdef''"

fun EncodeToString :: "byte list \<Rightarrow> string" where
  "EncodeToString [] = []"
| "EncodeToString (v # src) =
     hextable ! unat (drop_bit 4 v) # hextable ! unat (v AND 15) # EncodeToString src"

text \<open>
  Modelled from the spec: the constant \<open>_exit_success\<close> is declared elsewhere in
  package \<open>cmd\<close>. Section 6 of the spec gives exit status 0 to a run whose offline
  serialization succeeded.
\<close>

definition exit_success :: nat where
  "exit_success = 0"

text \<open>
  How the part of a command after signing ends: \<open>os.Exit\<close> with a status, a failed
  \<open>ErrCheck\<close>, or the signed transaction handed to \<open>handleSubmittedTransaction\<close>
  (declared elsewhere in package \<open>cmd\<close>).
\<close>

datatype 'stx ending = Exit nat | Failed cmd_error | HandleSubmitted 'stx

text \<open>
  What that part of a command does itself: \<open>stdout\<close> holds the lines it writes with
  \<open>fmt.Printf\<close> (each format ends in a newline, so each call writes one line),
  \<open>broadcasts\<close> the transactions it passes to \<open>client.SendTransaction\<close>. What
  \<open>cli.ErrCheck\<close> and \<open>handleSubmittedTransaction\<close> write is not part of it.
\<close>

record 'stx emitted =
  stdout :: "string list"
  broadcasts :: "'stx list"
  ending :: "'stx ending"

text \<open>cmd/transactionup.go, lines 68 to 85.\<close>

definition transactionUp_emit :: "('err, 'stx) cmd_env \<Rightarrow> 'stx \<Rightarrow> 'stx emitted" where
  "transactionUp_emit env signedTx =
     (if offline env then
        \<lparr> stdout = (if \<not> quiet env
                     then [''0x'' @ EncodeToString (EncodeRLP env signedTx)]
                     else []),
          broadcasts = [],
          ending = Exit exit_success \<rparr>
      else
        (case ErrCheck (SendTransaction env signedTx) SendTransactionFailed of
           Inl e \<Rightarrow> \<lparr> stdout = [], broadcasts = [signedTx], ending = Failed e \<rparr>
         | Inr _ \<Rightarrow> \<lparr> stdout = [], broadcasts = [signedTx],
                      ending = HandleSubmitted signedTx \<rparr>))"

text \<open>cmd/contractsend.go, lines 78 to 95.\<close>

definition contractSend_emit :: "('err, 'stx) cmd_env \<Rightarrow> 'stx \<Rightarrow> 'stx emitted" where
  "contractSend_emit env signedTx =
     (if offline env then
        \<lparr> stdout = (if \<not> quiet env
                     then [''0x'' @ EncodeToString (EncodeRLP env signedTx)]
                     else []),
          broadcasts = [],
          ending = Exit exit_success \<rparr>
      else
        (case ErrCheck (SendTransaction env signedTx) SendContractTransactionFailed of
           Inl e \<Rightarrow> \<lparr> stdout = [], broadcasts = [signedTx], ending = Failed e \<rparr>
         | Inr _ \<Rightarrow> \<lparr> stdout = [], broadcasts = [signedTx],
                      ending = HandleSubmitted signedTx \<rparr>))"

section \<open>cli/wallet.go: the host, paths, wallets\<close>

text \<open>
  A file path is kept as the sequence of the elements joined so far. \<open>filepath.Join\<close>
  ignores empty elements and puts the separator of the host between the others, so
  joining one more element appends it unless it is empty; the empty path is Go's
  empty string. (The final \<open>Clean\<close> of \<open>filepath.Join\<close> is not modelled.)
\<close>

type_synonym path = "string list"

definition of_string :: "string \<Rightarrow> path" where
  "of_string s = (if s = [] then [] else [s])"

definition Join :: "path \<Rightarrow> string \<Rightarrow> path" where
  "Join dir elem = (if elem = [] then dir else dir @ [elem])"

text \<open>
  \<open>accounts.Account\<close> and the part of the \<open>accounts.Wallet\<close> interface that the
  package uses: \<open>Accounts()\<close> and \<open>SignDataWithPassphrase(account, passphrase,
  mimeType, data)\<close>, which returns the signature or an error.
\<close>

record account =
  Address :: address
  URL :: string

datatype sign_error = SignError

record wallet =
  wallet_URL :: string
  Accounts :: "account list"
  SignDataWithPassphrase ::
    "account \<Rightarrow> string \<Rightarrow> string \<Rightarrow> byte list \<Rightarrow> sign_error + byte list"

text \<open>
  The errors of the package: the panic of \<open>windowsAppData\<close>, \<open>Failed to find home
  directory\<close>, \<open>Unsupported operating system\<close>, the \<open>ErrUnknownAccount\<close> of
  \<open>accounts.Manager.Find\<close>, \<open>failed to obtain wallet for ...\<close>, the error of
  \<open>usbwallet.NewLedgerHub\<close>, \<open>invalid passphrase\<close> and \<open>account not found\<close>.
\<close>

datatype wallet_error =
  Panic
| FailedHomeDir
| UnsupportedOS
| ErrUnknownAccount
| FailedToObtainWallet
| LedgerHubError
| InvalidPassphrase
| AccountNotFound

text \<open>
  A device behind the Ledger hub: \<open>dev_Derive\<close> is the account the device returns for
  a derivation path once the wallet has been opened, \<open>None\<close> when \<open>Open\<close> or \<open>Derive\<close>
  fails (the package ignores both errors).
\<close>

record ledger_device =
  dev_URL :: string
  dev_Derive :: "32 word list \<Rightarrow> account option"
  dev_Sign :: "account \<Rightarrow> string \<Rightarrow> string \<Rightarrow> byte list \<Rightarrow> sign_error + byte list"

text \<open>
  Everything outside the package that its functions read: \<open>runtime.GOOS\<close>, the
  environment variables \<open>HOME\<close> and \<open>LOCALAPPDATA\<close>, \<open>user.Current()\<close> (the home
  directory of the user, \<open>None\<close> on error), \<open>os.Open\<close> followed by \<open>Readdir\<close> (the
  entries of a directory, \<open>None\<close> when it cannot be opened), \<open>homedir.Dir()\<close> (\<open>None\<close>
  on error), the wallets of the key store at a directory (\<open>keystore.NewKeyStore\<close>
  behind an \<open>accounts.Manager\<close>; a missing directory has none),
  \<open>usbwallet.NewLedgerHub()\<close> (the devices, \<open>None\<close> on error) and viper's
  \<open>usbwallets\<close> setting.
\<close>

record host =
  GOOS :: string
  env_HOME :: string
  user_Current :: "string option"
  env_LOCALAPPDATA :: string
  os_Open :: "path \<Rightarrow> string list option"
  homedir_Dir :: "string option"
  NewKeyStore :: "path \<Rightarrow> wallet list"
  NewLedgerHub :: "ledger_device list option"
  usbwallets :: int

text \<open>
  The chain identifiers of go-ethereum's \<open>params\<close> package: \<open>MainnetChainConfig\<close>,
  \<open>TestnetChainConfig\<close> (Ropsten), \<open>RinkebyChainConfig\<close> and \<open>GoerliChainConfig\<close>.
\<close>

definition MainnetChainID :: int where "MainnetChainID = 1"
definition TestnetChainID :: int where "TestnetChainID = 3"
definition RinkebyChainID :: int where "RinkebyChainID = 4"
definition GoerliChainID :: int where "GoerliChainID = 5"

subsection \<open>DefaultDataDir and its helpers (lines 230 to 286)\<close>

definition homeDir :: "host \<Rightarrow> string" where
  "homeDir h =
     (if env_HOME h \<noteq> [] then env_HOME h
      else case user_Current h of Some usrHomeDir \<Rightarrow> usrHomeDir | None \<Rightarrow> [])"

definition windowsAppData :: "host \<Rightarrow> wallet_error + string" where
  "windowsAppData h = (if env_LOCALAPPDATA h = [] then Inl Panic else Inr (env_LOCALAPPDATA h))"

definition isNonEmptyDir :: "host \<Rightarrow> path \<Rightarrow> bool" where
  "isNonEmptyDir h dir =
     (case os_Open h dir of None \<Rightarrow> False | Some names \<Rightarrow> length (take 1 names) > 0)"

definition DefaultDataDir :: "host \<Rightarrow> wallet_error + path" where
  "DefaultDataDir h =
     (let home = homeDir h in
      if home \<noteq> [] then
        (if GOOS h = ''darwin'' then
           Inr (Join (Join (of_string home) ''Library'') ''Ethereum'')
         else if GOOS h = ''windows'' then
           (let fallback = Join (Join (Join (of_string home) ''AppData'') ''Roaming'') ''Ethereum''
            in case windowsAppData h of
                 Inl p \<Rightarrow> Inl p
               | Inr appdata \<Rightarrow>
                   if appdata = [] \<or> isNonEmptyDir h fallback then Inr fallback
                   else Inr (Join (of_string appdata) ''Ethereum''))
         else Inr (Join (of_string home) ''.ethereum''))
      else Inr [])"

subsection \<open>The account manager of go-ethereum\<close>

text \<open>
  \<open>keystore\<close> wallets answer \<open>Contains(account)\<close> by the address, and by the URL when
  the account asked for has one. \<open>Manager.Find\<close> returns the first wallet that
  contains the account, \<open>ErrUnknownAccount\<close> when there is none.
\<close>

definition Contains :: "wallet \<Rightarrow> account \<Rightarrow> bool" where
  "Contains w a =
     list_ex (\<lambda>acc. Address a = Address acc \<and> (URL a = [] \<or> URL a = URL acc)) (Accounts w)"

definition Manager_Find :: "wallet list \<Rightarrow> account \<Rightarrow> wallet_error + wallet" where
  "Manager_Find wallets a =
     (case find (\<lambda>w. Contains w a) wallets of
        Some w \<Rightarrow> Inr w
      | None \<Rightarrow> Inl ErrUnknownAccount)"

subsection \<open>The geth key store (lines 85 to 129)\<close>

text \<open>
  Lines 86 to 100 of \<open>obtainGethWallet\<close>: the key directory. The chain of conditions
  is the source's, the fourth comparison repeated twice.
\<close>

definition obtainGethWallet_keydir :: "host \<Rightarrow> int \<Rightarrow> wallet_error + path" where
  "obtainGethWallet_keydir h chainID =
     (case DefaultDataDir h of
        Inl p \<Rightarrow> Inl p
      | Inr keydir \<Rightarrow>
          Inr (Join
            (if chainID = MainnetChainID then keydir
             else if chainID = TestnetChainID then Join keydir ''testnet''
             else if chainID = RinkebyChainID then Join keydir ''rinkeby''
             else if chainID = GoerliChainID then Join keydir ''goerli''
             else if chainID = GoerliChainID then Join keydir ''volta''
             else if chainID = GoerliChainID then Join keydir ''energyweb''
             else keydir)
            ''keystore''))"

text \<open>Lines 101 to 106: the look-up of the address in the key store at that directory.\<close>

definition obtainGethWallet :: "host \<Rightarrow> int \<Rightarrow> address \<Rightarrow> wallet_error + wallet" where
  "obtainGethWallet h chainID address =
     (case obtainGethWallet_keydir h chainID of
        Inl p \<Rightarrow> Inl p
      | Inr keydir \<Rightarrow> Manager_Find (NewKeyStore h keydir) \<lparr> Address = address, URL = [] \<rparr>)"

text \<open>Lines 110 to 124 of \<open>obtainGethWallets\<close>: the same chain, written out again.\<close>

definition obtainGethWallets_keydir :: "host \<Rightarrow> int \<Rightarrow> wallet_error + path" where
  "obtainGethWallets_keydir h chainID =
     (case DefaultDataDir h of
        Inl p \<Rightarrow> Inl p
      | Inr keydir \<Rightarrow>
          Inr (Join
            (if chainID = MainnetChainID then keydir
             else if chainID = TestnetChainID then Join keydir ''testnet''
             else if chainID = RinkebyChainID then Join keydir ''rinkeby''
             else if chainID = GoerliChainID then Join keydir ''goerli''
             else if chainID = GoerliChainID then Join keydir ''volta''
             else if chainID = GoerliChainID then Join keydir ''energyweb''
             else keydir)
            ''keystore''))"

definition obtainGethWallets :: "host \<Rightarrow> int \<Rightarrow> wallet_error + wallet list" where
  "obtainGethWallets h chainID =
     (case obtainGethWallets_keydir h chainID of
        Inl p \<Rightarrow> Inl p
      | Inr keydir \<Rightarrow> Inr (NewKeyStore h keydir))"

subsection \<open>The Parity key store (lines 131 to 185)\<close>

text \<open>The Windows element is written with backslashes in the source.\<close>

definition parityWindows :: string where
  "parityWindows =
     ''AppData'' @ [CHR 0x5C] @ ''Roaming'' @ [CHR 0x5C] @ ''Parity'' @ [CHR 0x5C]
       @ ''Ethereum'' @ [CHR 0x5C] @ ''keys''"

text \<open>Lines 132 to 150 of \<open>obtainParityWallet\<close>: the key directory.\<close>

definition obtainParityWallet_keydir :: "host \<Rightarrow> int \<Rightarrow> wallet_error + path" where
  "obtainParityWallet_keydir h chainID =
     (case homedir_Dir h of
        None \<Rightarrow> Inl FailedHomeDir
      | Some home \<Rightarrow>
          (case (if GOOS h = ''windows'' then Inr (Join (of_string home) parityWindows)
                 else if GOOS h = ''darwin'' then
                   Inr (Join (of_string home)
                          ''Library/Application Support/io.parity.ethereum/keys'')
                 else if GOOS h = ''linux'' then
                   Inr (Join (of_string home) ''.local/share/io.parity.ethereum/keys'')
                 else Inl UnsupportedOS) of
             Inl e \<Rightarrow> Inl e
           | Inr keydir \<Rightarrow>
               Inr (if chainID = MainnetChainID then Join keydir ''ethereum''
                    else if chainID = TestnetChainID then Join keydir ''test''
                    else keydir)))"

definition obtainParityWallet :: "host \<Rightarrow> int \<Rightarrow> address \<Rightarrow> wallet_error + wallet" where
  "obtainParityWallet h chainID address =
     (case obtainParityWallet_keydir h chainID of
        Inl e \<Rightarrow> Inl e
      | Inr keydir \<Rightarrow> Manager_Find (NewKeyStore h keydir) \<lparr> Address = address, URL = [] \<rparr>)"

text \<open>Lines 161 to 179 of \<open>obtainParityWallets\<close>: the same steps, written out again.\<close>

definition obtainParityWallets_keydir :: "host \<Rightarrow> int \<Rightarrow> wallet_error + path" where
  "obtainParityWallets_keydir h chainID =
     (case homedir_Dir h of
        None \<Rightarrow> Inl FailedHomeDir
      | Some home \<Rightarrow>
          (case (if GOOS h = ''windows'' then Inr (Join (of_string home) parityWindows)
                 else if GOOS h = ''darwin'' then
                   Inr (Join (of_string home)
                          ''Library/Application Support/io.parity.ethereum/keys'')
                 else if GOOS h = ''linux'' then
                   Inr (Join (of_string home) ''.local/share/io.parity.ethereum/keys'')
                 else Inl UnsupportedOS) of
             Inl e \<Rightarrow> Inl e
           | Inr keydir \<Rightarrow>
               Inr (if chainID = MainnetChainID then Join keydir ''ethereum''
                    else if chainID = TestnetChainID then Join keydir ''test''
                    else keydir)))"

definition obtainParityWallets :: "host \<Rightarrow> int \<Rightarrow> wallet_error + wallet list" where
  "obtainParityWallets h chainID =
     (case obtainParityWallets_keydir h chainID of
        Inl e \<Rightarrow> Inl e
      | Inr keydir \<Rightarrow> Inr (NewKeyStore h keydir))"

subsection \<open>The Ledger hub (lines 187 to 208)\<close>

definition LegacyLedgerBaseDerivationPath :: "32 word list" where
  "LegacyLedgerBaseDerivationPath = [0x80000000 + 44, 0x80000000 + 60, 0x80000000 + 0, 0]"

text \<open>
  \<open>wallet.Derive(path, true)\<close> of a USB wallet: a derived account is appended to the
  accounts of the wallet unless its address is already tracked; a failed derivation
  changes nothing.
\<close>

fun pinAccount :: "account list \<Rightarrow> account option \<Rightarrow> account list" where
  "pinAccount accs None = accs"
| "pinAccount accs (Some a) =
     (if list_ex (\<lambda>b. Address b = Address a) accs then accs else accs @ [a])"

text \<open>
  The body of the loop over the wallets of the hub: open the wallet, then derive and
  pin the paths whose last element is \<open>uint32(i)\<close> for \<open>i\<close> from 0 below \<open>usbWallets\<close>.
\<close>

definition openAndDerive :: "int \<Rightarrow> ledger_device \<Rightarrow> wallet" where
  "openAndDerive usbWallets d =
     \<lparr> wallet_URL = dev_URL d,
       Accounts =
         fold (\<lambda>i accs. pinAccount accs
                 (dev_Derive d (LegacyLedgerBaseDerivationPath[3 := of_nat i])))
              [0..<nat usbWallets] [],
       SignDataWithPassphrase = dev_Sign d \<rparr>"

definition obtainLedgerWallets :: "host \<Rightarrow> int \<Rightarrow> wallet_error + wallet list" where
  "obtainLedgerWallets h chainID =
     (case NewLedgerHub h of
        None \<Rightarrow> Inl LedgerHubError
      | Some devices \<Rightarrow> Inr (map (openAndDerive (usbwallets h)) devices))"

subsection \<open>ObtainWallets (lines 36 to 58) and ObtainWallet (lines 71 to 83)\<close>

definition ObtainWallets :: "host \<Rightarrow> int \<Rightarrow> wallet_error + wallet list" where
  "ObtainWallets h chainID =
     (case obtainGethWallets h chainID of
        Inl err \<Rightarrow> Inl err
      | Inr gethWallets \<Rightarrow>
     (case obtainParityWallets h chainID of
        Inl err \<Rightarrow> Inl err
      | Inr parityWallets \<Rightarrow>
     (case obtainLedgerWallets h chainID of
        Inl err \<Rightarrow> Inl err
      | Inr ledgerWallets \<Rightarrow> Inr ((([] @ gethWallets) @ parityWallets) @ ledgerWallets))))"

text \<open>
  An error of the geth look-up sends \<open>ObtainWallet\<close> on to the Parity look-up; an error
  there becomes \<open>failed to obtain wallet\<close>. The panic of \<open>windowsAppData\<close> is not an
  error value: it ends the run.
\<close>

definition ObtainWallet :: "host \<Rightarrow> int \<Rightarrow> address \<Rightarrow> wallet_error + wallet" where
  "ObtainWallet h chainID address =
     (case obtainGethWallet h chainID address of
        Inr wallet \<Rightarrow> Inr wallet
      | Inl err \<Rightarrow>
          if err = Panic then Inl Panic
          else (case obtainParityWallet h chainID address of
                  Inr wallet \<Rightarrow> Inr wallet
                | Inl err' \<Rightarrow> Inl FailedToObtainWallet))"

subsection \<open>ObtainAccount and VerifyPassphrase (lines 211 to 228)\<close>

text \<open>
  A call of \<open>SignDataWithPassphrase\<close>, and what \<open>ObtainAccount\<close> leaves behind: its
  result, the signing calls it made on the wallet, and the lines it printed.
\<close>

record sign_request =
  req_account :: account
  req_passphrase :: string
  req_mimeType :: string
  req_data :: "byte list"

record account_outcome =
  result :: "wallet_error + account"
  sign_requests :: "sign_request list"
  printed :: "string list"

text \<open>
  \<open>VerifyPassphrase\<close>: one signing call over 32 zero bytes; the signature is dropped
  (\<open>_, err := ...\<close>) and only \<open>err == nil\<close> is returned. The model returns the
  call made beside it.
\<close>

definition VerifyPassphrase :: "wallet \<Rightarrow> account \<Rightarrow> string \<Rightarrow> bool \<times> sign_request list" where
  "VerifyPassphrase w acc passphrase =
     ((case SignDataWithPassphrase w acc passphrase ''application/octet-stream''
              (replicate 32 0) of
         Inl err \<Rightarrow> False
       | Inr signature \<Rightarrow> True),
      [\<lparr> req_account = acc, req_passphrase = passphrase,
         req_mimeType = ''application/octet-stream'', req_data = replicate 32 0 \<rparr>])"

text \<open>The loop of \<open>ObtainAccount\<close> over \<open>(*wallet).Accounts()\<close>.\<close>

fun ObtainAccount_range ::
  "wallet \<Rightarrow> account list \<Rightarrow> address \<Rightarrow> string \<Rightarrow> account_outcome" where
  "ObtainAccount_range w [] address passphrase =
     \<lparr> result = Inl AccountNotFound, sign_requests = [], printed = [] \<rparr>"
| "ObtainAccount_range w (acc # rest) address passphrase =
     (if address = Address acc then
        (if passphrase \<noteq> [] then
           (case VerifyPassphrase w acc passphrase of
              (ok, requests) \<Rightarrow>
                if \<not> ok then
                  \<lparr> result = Inl InvalidPassphrase, sign_requests = requests,
                    printed = [''Verifying passphrase''] \<rparr>
                else \<lparr> result = Inr acc, sign_requests = requests, printed = [] \<rparr>)
         else \<lparr> result = Inr acc, sign_requests = [], printed = [] \<rparr>)
      else ObtainAccount_range w rest address passphrase)"

definition ObtainAccount :: "wallet \<Rightarrow> address \<Rightarrow> string \<Rightarrow> account_outcome" where
  "ObtainAccount w address passphrase = ObtainAccount_range w (Accounts w) address passphrase"

section \<open>Concrete runs for the examples\<close>

text \<open>
  A pending transaction with gas price 5 and a node that knows it under hash 42; the
  helpers of other files and packages are fixed to simple functions.
\<close>

definition tx5 :: transaction where
  "tx5 = \<lparr> To = Some 7, Value = 100, Gas = 21000, GasPrice = 5, Nonce = 3, Data = [1, 2] \<rparr>"

definition env_up :: "string \<Rightarrow> int \<Rightarrow> bool \<Rightarrow> (unit, nat) cmd_env" where
  "env_up gaspriceStr supplied pending =
     \<lparr> transactionStr = ''0x2a'', quiet = False, offline = True,
       viper_gasprice = gaspriceStr, flag_gasPrice = supplied,
       HexToHash = (\<lambda>s. 42),
       TransactionByHash = (\<lambda>h. if h = 42 then Inr (tx5, pending) else Inl ()),
       txFrom = (\<lambda>tx. Inr 9),
       createSignedTransaction = (\<lambda>call. Inr 77),
       EncodeRLP = (\<lambda>stx. [1, 171]),
       SendTransaction = (\<lambda>stx. Inl ()) \<rparr>"

text \<open>
  The same run with the flags \<open>offline\<close> and \<open>quiet\<close> chosen, and a node that accepts
  a broadcast or cannot be reached.
\<close>

definition env_emit :: "bool \<Rightarrow> bool \<Rightarrow> bool \<Rightarrow> (unit, nat) cmd_env" where
  "env_emit off q reachable =
     (env_up [] 0 True)\<lparr> offline := off, quiet := q,
       SendTransaction := (\<lambda>stx. if reachable then Inr () else Inl ()) \<rparr>"

text \<open>
  A key-store wallet holding one account; its signer accepts the passphrase
  \<open>secret\<close> only.
\<close>

definition keystore_wallet :: "string \<Rightarrow> address \<Rightarrow> wallet" where
  "keystore_wallet url a =
     \<lparr> wallet_URL = url,
       Accounts = [\<lparr> Address = a, URL = url \<rparr>],
       SignDataWithPassphrase =
         (\<lambda>acc passphrase mimeType d. if passphrase = ''secret'' then Inr [1] else Inl SignError) \<rparr>"

text \<open>A Ledger device that derives the account with address 3 on the first path.\<close>

definition ledger3 :: ledger_device where
  "ledger3 =
     \<lparr> dev_URL = ''ledger'',
       dev_Derive = (\<lambda>p. if p = LegacyLedgerBaseDerivationPath[3 := 0]
                          then Some \<lparr> Address = 3, URL = ''ledger'' \<rparr> else None),
       dev_Sign = (\<lambda>acc passphrase mimeType d. Inr [2]) \<rparr>"

text \<open>
  A Linux host with home directory \<open>/home/u\<close>: a geth key store with the account 1
  (mainnet), a Parity key store with the account 2, and the Ledger device.
\<close>

definition linux_host :: host where
  "linux_host =
     \<lparr> GOOS = ''linux'', env_HOME = ''/home/u'', user_Current = None,
       env_LOCALAPPDATA = [], os_Open = (\<lambda>dir. None), homedir_Dir = Some ''/home/u'',
       NewKeyStore = (\<lambda>dir.
          if dir = [''/home/u'', ''.ethereum'', ''keystore''] then [keystore_wallet ''geth'' 1]
          else if dir = [''/home/u'', ''.local/share/io.parity.ethereum/keys'', ''ethereum'']
          then [keystore_wallet ''parity'' 2]
          else []),
       NewLedgerHub = Some [ledger3], usbwallets = 1 \<rparr>"

text \<open>The same host without a reachable Ledger hub.\<close>

definition linux_host_no_hub :: host where
  "linux_host_no_hub = linux_host\<lparr> NewLedgerHub := None \<rparr>"

text \<open>A host whose operating system is none of the three and whose home directory is unknown.\<close>

definition plan9_host_no_home :: host where
  "plan9_host_no_home = linux_host\<lparr> GOOS := ''plan9'', homedir_Dir := None \<rparr>"

section \<open>The fee bump\<close>

lemma minGasPrice_greater: "0 \<le> g \<Longrightarrow> g < minGasPrice g"
proof -
  assume "0 \<le> g"
  then have "0 \<le> g div 10" by simp
  then show ?thesis by (simp add: minGasPrice_def)
qed

lemma chooseGasPrice_default: "chooseGasPrice [] p m = Inr m"
  by (simp add: chooseGasPrice_def)

lemma chooseGasPrice_supplied:
  "s \<noteq> [] \<Longrightarrow> chooseGasPrice s p m = (if p > m then Inr p else Inl GasPriceTooLow)"
  by (simp add: chooseGasPrice_def Assert_def)

lemma transactionUp_build_Inr:
  assumes "transactionUp_build env = Inr (call, stx)"
  shows "\<exists>tx. transactionStr env \<noteq> []
            \<and> TransactionByHash env (HexToHash env (transactionStr env)) = Inr (tx, True)
            \<and> chooseGasPrice (viper_gasprice env) (flag_gasPrice env)
                 (minGasPrice (GasPrice tx)) = Inr (gasPrice (call_globals call))
            \<and> txFrom env tx = Inr (call_fromAddress call)
            \<and> nonce (call_globals call) = Nonce tx
            \<and> call_toAddress call = To tx
            \<and> call_amount call = Value tx
            \<and> call_gasLimit call = Gas tx
            \<and> call_data call = Data tx
            \<and> createSignedTransaction env call = Inr stx"
  using assms
  by (auto simp: transactionUp_build_def Assert_def ErrCheck_def Let_def
           split: if_splits sum.splits prod.splits)

text \<open>
  Claim C1. For every positive old gas price \<open>g\<close> the replacement minimum \<open>m\<close> of
  transaction up is \<open>g + g div 10 + 1\<close>, so \<open>m > g\<close>; 1,000,000,000 gives
  1,100,000,001 and 5 gives 6. Without \<open>--gasprice\<close> the command goes on with \<open>m\<close> as
  the gas price; with a supplied price \<open>p\<close> it goes on (with \<open>p\<close>) only if \<open>p > m\<close>
  and stops otherwise. A finished build of a transaction whose old price is \<open>g\<close>
  therefore carries \<open>m\<close> or a supplied price above \<open>m\<close>.
\<close>

theorem replacement_min_gas_price:
  assumes "0 < g"
  shows "minGasPrice g = g + g div 10 + 1 \<and> g < minGasPrice g
       \<and> minGasPrice 1000000000 = 1100000001 \<and> minGasPrice 5 = 6
       \<and> chooseGasPrice [] p (minGasPrice g) = Inr (minGasPrice g)
       \<and> chooseGasPrice (c # s) p (minGasPrice g)
           = (if minGasPrice g < p then Inr p else Inl GasPriceTooLow)
       \<and> (transactionUp_build env = Inr (call, stx)
            \<and> TransactionByHash env (HexToHash env (transactionStr env)) = Inr (tx, pd)
            \<and> GasPrice tx = g
          \<longrightarrow> gasPrice (call_globals call)
                = (if viper_gasprice env = [] then minGasPrice g else flag_gasPrice env)
              \<and> (viper_gasprice env = [] \<or> minGasPrice g < flag_gasPrice env))"
proof -
  have a: "minGasPrice g = g + g div 10 + 1" by (simp add: minGasPrice_def)
  have b: "g < minGasPrice g" using assms by (simp add: minGasPrice_greater)
  have c: "minGasPrice 1000000000 = 1100000001 \<and> minGasPrice 5 = 6"
    by (simp add: minGasPrice_def)
  have d: "chooseGasPrice [] p (minGasPrice g) = Inr (minGasPrice g)"
    by (rule chooseGasPrice_default)
  have e: "chooseGasPrice (c # s) p (minGasPrice g)
           = (if minGasPrice g < p then Inr p else Inl GasPriceTooLow)"
    by (simp add: chooseGasPrice_supplied)
  have f: "gasPrice (call_globals call)
                = (if viper_gasprice env = [] then minGasPrice g else flag_gasPrice env)
              \<and> (viper_gasprice env = [] \<or> minGasPrice g < flag_gasPrice env)"
    if built: "transactionUp_build env = Inr (call, stx)"
      and fetched: "TransactionByHash env (HexToHash env (transactionStr env)) = Inr (tx, pd)"
      and g: "GasPrice tx = g"
  proof -
    from transactionUp_build_Inr [OF built] fetched g
    have ch: "chooseGasPrice (viper_gasprice env) (flag_gasPrice env) (minGasPrice g)
              = Inr (gasPrice (call_globals call))"
      by auto
    show ?thesis
    proof (cases "viper_gasprice env = []")
      case True
      with ch show ?thesis by (simp add: chooseGasPrice_default)
    next
      case False
      with ch show ?thesis by (auto simp: chooseGasPrice_supplied split: if_splits)
    qed
  qed
  from a b c d e f show ?thesis by blast
qed

theorem replacement_min_gas_price_witness:
  "(0::int) < 5
   \<and> transactionUp_build (env_up [] 0 True)
       = Inr (\<lparr> call_globals = \<lparr> gasPrice = 6, nonce = 3 \<rparr>, call_fromAddress = 9,
                call_toAddress = Some 7, call_amount = 100, call_gasLimit = 21000,
                call_data = [1, 2] \<rparr>, 77)
   \<and> TransactionByHash (env_up [] 0 True)
        (HexToHash (env_up [] 0 True) (transactionStr (env_up [] 0 True))) = Inr (tx5, True)
   \<and> GasPrice tx5 = 5
   \<and> minGasPrice 5 = 5 + 5 div 10 + 1 \<and> 5 < minGasPrice 5
   \<and> chooseGasPrice [] 7 (minGasPrice 5) = Inr (minGasPrice 5)
   \<and> chooseGasPrice ''7'' 7 (minGasPrice 5) = Inr 7
   \<and> viper_gasprice (env_up [] 0 True) = []"
proof -
  let ?env = "env_up [] 0 True"
  let ?call = "\<lparr> call_globals = \<lparr> gasPrice = 6, nonce = 3 \<rparr>, call_fromAddress = 9,
                call_toAddress = Some 7, call_amount = 100, call_gasLimit = 21000,
                call_data = [1, 2] \<rparr>"
  have pos: "(0::int) < 5" by simp
  have built: "transactionUp_build ?env = Inr (?call, 77)"
    by (simp add: transactionUp_build_def env_up_def tx5_def Assert_def ErrCheck_def
          chooseGasPrice_def minGasPrice_def Let_def)
  have fetched: "TransactionByHash ?env (HexToHash ?env (transactionStr ?env)) = Inr (tx5, True)"
    by (simp add: env_up_def)
  have g: "GasPrice tx5 = 5" by (simp add: tx5_def)
  have m: "minGasPrice 5 = 6" by (simp add: minGasPrice_def)
  have v: "viper_gasprice ?env = []" by (simp add: env_up_def)
  from replacement_min_gas_price [OF pos, where p = 7 and c = "CHR ''7''" and s = "[]"
         and env = ?env and call = ?call and stx = 77 and tx = tx5 and pd = True]
       built fetched g pos m v
  show ?thesis by simp
qed

section \<open>The replacement transaction\<close>

text \<open>
  Claim C2. When the node reports the referenced transaction as no longer pending,
  transaction up stops with \<open>AlreadyMined\<close>: no transaction is built or signed.
  When the build finishes, the original transaction was
  pending, and the call that creates the replacement carries the original's \<open>to\<close>,
  \<open>value\<close>, gas limit, \<open>data\<close> and nonce unchanged, the sender recovered from the
  original as \<open>from\<close>, and the gas price chosen by the bump rule.
\<close>

theorem replacement_copies_original:
  "(transactionStr env \<noteq> []
      \<and> TransactionByHash env (HexToHash env (transactionStr env)) = Inr (tx, False)
    \<longrightarrow> transactionUp_build env = Inl AlreadyMined)
   \<and> (transactionUp_build env = Inr (call, stx)
    \<longrightarrow> (\<exists>orig. TransactionByHash env (HexToHash env (transactionStr env)) = Inr (orig, True)
          \<and> call_toAddress call = To orig
          \<and> call_amount call = Value orig
          \<and> call_gasLimit call = Gas orig
          \<and> call_data call = Data orig
          \<and> nonce (call_globals call) = Nonce orig
          \<and> txFrom env orig = Inr (call_fromAddress call)
          \<and> chooseGasPrice (viper_gasprice env) (flag_gasPrice env)
                (minGasPrice (GasPrice orig)) = Inr (gasPrice (call_globals call))
          \<and> createSignedTransaction env call = Inr stx))"
proof (intro conjI impI)
  assume a: "transactionStr env \<noteq> []
      \<and> TransactionByHash env (HexToHash env (transactionStr env)) = Inr (tx, False)"
  then show "transactionUp_build env = Inl AlreadyMined"
    by (simp add: transactionUp_build_def Assert_def ErrCheck_def)
next
  assume "transactionUp_build env = Inr (call, stx)"
  from transactionUp_build_Inr [OF this]
  show "\<exists>orig. TransactionByHash env (HexToHash env (transactionStr env)) = Inr (orig, True)
          \<and> call_toAddress call = To orig
          \<and> call_amount call = Value orig
          \<and> call_gasLimit call = Gas orig
          \<and> call_data call = Data orig
          \<and> nonce (call_globals call) = Nonce orig
          \<and> txFrom env orig = Inr (call_fromAddress call)
          \<and> chooseGasPrice (viper_gasprice env) (flag_gasPrice env)
                (minGasPrice (GasPrice orig)) = Inr (gasPrice (call_globals call))
          \<and> createSignedTransaction env call = Inr stx"
    by blast
qed

theorem replacement_copies_original_witness:
  "transactionStr (env_up [] 0 False) \<noteq> []
   \<and> TransactionByHash (env_up [] 0 False)
        (HexToHash (env_up [] 0 False) (transactionStr (env_up [] 0 False))) = Inr (tx5, False)
   \<and> transactionUp_build (env_up [] 0 False) = Inl AlreadyMined
   \<and> transactionUp_build (env_up ''7'' 7 True)
       = Inr (\<lparr> call_globals = \<lparr> gasPrice = 7, nonce = 3 \<rparr>, call_fromAddress = 9,
                call_toAddress = Some 7, call_amount = 100, call_gasLimit = 21000,
                call_data = [1, 2] \<rparr>, 77)
   \<and> (\<exists>orig. TransactionByHash (env_up ''7'' 7 True)
                 (HexToHash (env_up ''7'' 7 True) (transactionStr (env_up ''7'' 7 True)))
                = Inr (orig, True)
          \<and> To orig = Some 7 \<and> Value orig = 100 \<and> Gas orig = 21000
          \<and> Data orig = [1, 2] \<and> Nonce orig = 3
          \<and> txFrom (env_up ''7'' 7 True) orig = Inr 9)"
proof -
  let ?mined = "env_up [] 0 False"
  let ?env = "env_up ''7'' 7 True"
  let ?call = "\<lparr> call_globals = \<lparr> gasPrice = 7, nonce = 3 \<rparr>, call_fromAddress = 9,
                call_toAddress = Some 7, call_amount = 100, call_gasLimit = 21000,
                call_data = [1, 2] \<rparr>"
  have str: "transactionStr ?mined \<noteq> []" by (simp add: env_up_def)
  have fetched: "TransactionByHash ?mined (HexToHash ?mined (transactionStr ?mined))
                 = Inr (tx5, False)"
    by (simp add: env_up_def)
  have built: "transactionUp_build ?env = Inr (?call, 77)"
    by (simp add: transactionUp_build_def env_up_def tx5_def Assert_def ErrCheck_def
          chooseGasPrice_def minGasPrice_def Let_def)
  from replacement_copies_original [where env = ?mined and tx = tx5] str fetched
  have mined: "transactionUp_build ?mined = Inl AlreadyMined"
    by blast
  from replacement_copies_original [where env = ?env and call = ?call and stx = 77,
         THEN conjunct2, THEN mp, OF built]
  have copied: "\<exists>orig. TransactionByHash ?env (HexToHash ?env (transactionStr ?env))
                = Inr (orig, True)
          \<and> To orig = Some 7 \<and> Value orig = 100 \<and> Gas orig = 21000
          \<and> Data orig = [1, 2] \<and> Nonce orig = 3
          \<and> txFrom ?env orig = Inr 9"
    by (elim exE conjE, intro exI conjI) simp_all
  from str fetched built mined copied show ?thesis by blast
qed

section \<open>The offline branch\<close>

lemma EncodeToString_example: "EncodeToString [1, 171] = ''01ab''"
  by (simp add: hextable_def)

lemma length_EncodeToString: "length (EncodeToString bs) = 2 * length bs"
  by (induction bs) simp_all

lemma transactionUp_emit_offline:
  "offline env \<Longrightarrow> transactionUp_emit env stx =
     \<lparr> stdout = (if quiet env then [] else [''0x'' @ EncodeToString (EncodeRLP env stx)]),
       broadcasts = [], ending = Exit exit_success \<rparr>"
  by (simp add: transactionUp_emit_def)

lemma contractSend_emit_offline:
  "offline env \<Longrightarrow> contractSend_emit env stx =
     \<lparr> stdout = (if quiet env then [] else [''0x'' @ EncodeToString (EncodeRLP env stx)]),
       broadcasts = [], ending = Exit exit_success \<rparr>"
  by (simp add: contractSend_emit_def)

text \<open>
  Claim C7, as stated, at a run with both \<open>offline\<close> and \<open>quiet\<close> set: the offline branch
  of either command prints nothing, so its output is not the line \<open>0x\<close> followed by the
  hexadecimal encoding of the signed transaction.
\<close>

theorem offline_emit_always_prints_counterexample:
  "offline (env_emit True True True)
   \<and> stdout (transactionUp_emit (env_emit True True True) 77) = []
   \<and> stdout (transactionUp_emit (env_emit True True True) 77)
       \<noteq> [''0x'' @ EncodeToString (EncodeRLP (env_emit True True True) 77)]
   \<and> stdout (contractSend_emit (env_emit True True True) 77)
       \<noteq> [''0x'' @ EncodeToString (EncodeRLP (env_emit True True True) 77)]"
  by (simp add: transactionUp_emit_def contractSend_emit_def env_emit_def env_up_def)

text \<open>
  Claim C7, amended. With \<open>offline\<close> set, the part after signing of transaction up and
  of contract send passes nothing to \<open>SendTransaction\<close> and ends with the success exit
  status 0, whatever the node would answer; if moreover \<open>quiet\<close> is not set, its output
  is exactly one line: \<open>0x\<close> followed by \<open>hex.EncodeToString\<close> of the RLP encoding of
  the signed transaction.
\<close>

theorem offline_emit:
  assumes "offline env"
  shows "broadcasts (transactionUp_emit env stx) = []
       \<and> ending (transactionUp_emit env stx) = Exit exit_success
       \<and> transactionUp_emit (env\<lparr> SendTransaction := send \<rparr>) stx = transactionUp_emit env stx
       \<and> broadcasts (contractSend_emit env stx) = []
       \<and> ending (contractSend_emit env stx) = Exit exit_success
       \<and> contractSend_emit (env\<lparr> SendTransaction := send \<rparr>) stx = contractSend_emit env stx
       \<and> exit_success = 0
       \<and> (\<not> quiet env \<longrightarrow>
            stdout (transactionUp_emit env stx) = [''0x'' @ EncodeToString (EncodeRLP env stx)]
          \<and> stdout (contractSend_emit env stx) = [''0x'' @ EncodeToString (EncodeRLP env stx)])"
  using assms
  by (simp add: transactionUp_emit_offline contractSend_emit_offline exit_success_def)

theorem offline_emit_witness:
  "offline (env_emit True False False)
   \<and> \<not> quiet (env_emit True False False)
   \<and> transactionUp_emit (env_emit True False False) 77
       = \<lparr> stdout = [''0x01ab''], broadcasts = [], ending = Exit 0 \<rparr>
   \<and> transactionUp_emit (env_emit True False True) 77
       = transactionUp_emit (env_emit True False False) 77
   \<and> stdout (contractSend_emit (env_emit True False False) 77)
       = [''0x'' @ EncodeToString (EncodeRLP (env_emit True False False) 77)]"
proof -
  let ?env = "env_emit True False False"
  have off: "offline ?env" by (simp add: env_emit_def)
  have q: "\<not> quiet ?env" by (simp add: env_emit_def)
  have rlp: "EncodeRLP ?env 77 = [1, 171]" by (simp add: env_emit_def env_up_def)
  have upd: "?env\<lparr> SendTransaction := (\<lambda>stx. Inr ()) \<rparr> = env_emit True False True"
    by (simp add: env_emit_def)
  have run: "transactionUp_emit ?env 77 = \<lparr> stdout = [''0x01ab''], broadcasts = [], ending = Exit 0 \<rparr>"
    by (simp add: transactionUp_emit_def off q rlp hextable_def exit_success_def)
  from offline_emit [OF off, where stx = 77 and send = "\<lambda>stx. Inr ()"] q upd run off
  show ?thesis by simp
qed

text \<open>
  Claim C9. With both \<open>offline\<close> and \<open>quiet\<close> set, the offline branch of transaction up
  and of contract send writes no output and broadcasts nothing, and still ends with
  the success exit status 0: the encoded transaction is dropped.
\<close>

theorem offline_quiet_discards:
  assumes "offline env" and "quiet env"
  shows "transactionUp_emit env stx = \<lparr> stdout = [], broadcasts = [], ending = Exit exit_success \<rparr>
       \<and> contractSend_emit env stx = \<lparr> stdout = [], broadcasts = [], ending = Exit exit_success \<rparr>
       \<and> exit_success = 0"
  using assms
  by (simp add: transactionUp_emit_offline contractSend_emit_offline exit_success_def)

theorem offline_quiet_discards_witness:
  "offline (env_emit True True False) \<and> quiet (env_emit True True False)
   \<and> transactionUp_emit (env_emit True True False) 77
       = \<lparr> stdout = [], broadcasts = [], ending = Exit 0 \<rparr>
   \<and> contractSend_emit (env_emit True True False) 77
       = \<lparr> stdout = [], broadcasts = [], ending = Exit 0 \<rparr>"
proof -
  let ?env = "env_emit True True False"
  have off: "offline ?env" and q: "quiet ?env" by (simp_all add: env_emit_def)
  from offline_quiet_discards [OF off q, where stx = 77] off q
  show ?thesis by simp
qed

section \<open>Key directories\<close>

lemma DefaultDataDir_linux_host: "DefaultDataDir linux_host = Inr [''/home/u'', ''.ethereum'']"
  by (simp add: DefaultDataDir_def linux_host_def homeDir_def Join_def of_string_def)

text \<open>
  Claim C4. Whatever the chain identifier, the geth key directory of \<open>obtainGethWallet\<close>
  and of \<open>obtainGethWallets\<close> is the data directory followed by \<open>keystore\<close>, with
  nothing, \<open>testnet\<close>, \<open>rinkeby\<close> or \<open>goerli\<close> in between; it is never the \<open>volta\<close> or the
  \<open>energyweb\<close> directory, whose branches repeat the Goerli comparison: the Goerli
  identifier itself selects \<open>goerli\<close>.
\<close>

theorem geth_keydir_never_volta_energyweb:
  assumes "DefaultDataDir h = Inr d"
  shows "(obtainGethWallet_keydir h c = Inr (Join d ''keystore'')
          \<or> obtainGethWallet_keydir h c = Inr (Join (Join d ''testnet'') ''keystore'')
          \<or> obtainGethWallet_keydir h c = Inr (Join (Join d ''rinkeby'') ''keystore'')
          \<or> obtainGethWallet_keydir h c = Inr (Join (Join d ''goerli'') ''keystore''))
       \<and> obtainGethWallet_keydir h c \<noteq> Inr (Join (Join d ''volta'') ''keystore'')
       \<and> obtainGethWallet_keydir h c \<noteq> Inr (Join (Join d ''energyweb'') ''keystore'')
       \<and> obtainGethWallet_keydir h GoerliChainID = Inr (Join (Join d ''goerli'') ''keystore'')
       \<and> obtainGethWallets_keydir h c = obtainGethWallet_keydir h c
       \<and> obtainGethWallets_keydir h c \<noteq> Inr (Join (Join d ''volta'') ''keystore'')
       \<and> obtainGethWallets_keydir h c \<noteq> Inr (Join (Join d ''energyweb'') ''keystore'')
       \<and> obtainGethWallets_keydir h GoerliChainID = Inr (Join (Join d ''goerli'') ''keystore'')"
proof -
  have same: "obtainGethWallets_keydir h c = obtainGethWallet_keydir h c"
    by (simp add: obtainGethWallets_keydir_def obtainGethWallet_keydir_def)
  have four: "obtainGethWallet_keydir h c = Inr (Join d ''keystore'')
          \<or> obtainGethWallet_keydir h c = Inr (Join (Join d ''testnet'') ''keystore'')
          \<or> obtainGethWallet_keydir h c = Inr (Join (Join d ''rinkeby'') ''keystore'')
          \<or> obtainGethWallet_keydir h c = Inr (Join (Join d ''goerli'') ''keystore'')"
    using assms by (simp add: obtainGethWallet_keydir_def)
  have volta: "obtainGethWallet_keydir h c \<noteq> Inr (Join (Join d ''volta'') ''keystore'')"
    using four by (auto simp: Join_def)
  have energyweb: "obtainGethWallet_keydir h c \<noteq> Inr (Join (Join d ''energyweb'') ''keystore'')"
    using four by (auto simp: Join_def)
  have goerli: "obtainGethWallet_keydir h GoerliChainID = Inr (Join (Join d ''goerli'') ''keystore'')"
    using assms
    by (simp add: obtainGethWallet_keydir_def GoerliChainID_def MainnetChainID_def
          TestnetChainID_def RinkebyChainID_def)
  have goerlis: "obtainGethWallets_keydir h GoerliChainID = Inr (Join (Join d ''goerli'') ''keystore'')"
    using assms
    by (simp add: obtainGethWallets_keydir_def GoerliChainID_def MainnetChainID_def
          TestnetChainID_def RinkebyChainID_def)
  from same four volta energyweb goerli goerlis show ?thesis by simp
qed

theorem geth_keydir_never_volta_energyweb_witness:
  "DefaultDataDir linux_host = Inr [''/home/u'', ''.ethereum'']
   \<and> obtainGethWallet_keydir linux_host GoerliChainID
       = Inr [''/home/u'', ''.ethereum'', ''goerli'', ''keystore'']
   \<and> obtainGethWallets_keydir linux_host GoerliChainID
       = Inr [''/home/u'', ''.ethereum'', ''goerli'', ''keystore'']
   \<and> obtainGethWallet_keydir linux_host 246
       \<noteq> Inr [''/home/u'', ''.ethereum'', ''energyweb'', ''keystore'']
   \<and> obtainGethWallets_keydir linux_host 73799
       \<noteq> Inr [''/home/u'', ''.ethereum'', ''volta'', ''keystore'']"
  using geth_keydir_never_volta_energyweb [OF DefaultDataDir_linux_host, of GoerliChainID]
        geth_keydir_never_volta_energyweb [OF DefaultDataDir_linux_host, of 246]
        geth_keydir_never_volta_energyweb [OF DefaultDataDir_linux_host, of 73799]
        DefaultDataDir_linux_host
  by (simp add: Join_def)

lemma obtainGethWallet_keydir_other:
  assumes "c \<noteq> MainnetChainID" "c \<noteq> TestnetChainID" "c \<noteq> RinkebyChainID" "c \<noteq> GoerliChainID"
  shows "obtainGethWallet_keydir h c
         = (case DefaultDataDir h of Inl p \<Rightarrow> Inl p | Inr d \<Rightarrow> Inr (Join d ''keystore''))"
  using assms by (simp add: obtainGethWallet_keydir_def split: sum.splits)

lemma obtainGethWallets_keydir_other:
  assumes "c \<noteq> MainnetChainID" "c \<noteq> TestnetChainID" "c \<noteq> RinkebyChainID" "c \<noteq> GoerliChainID"
  shows "obtainGethWallets_keydir h c
         = (case DefaultDataDir h of Inl p \<Rightarrow> Inl p | Inr d \<Rightarrow> Inr (Join d ''keystore''))"
  using assms by (simp add: obtainGethWallets_keydir_def split: sum.splits)

lemma obtainGethWallets_keydir_mainnet:
  "obtainGethWallets_keydir h MainnetChainID
   = (case DefaultDataDir h of Inl p \<Rightarrow> Inl p | Inr d \<Rightarrow> Inr (Join d ''keystore''))"
  by (simp add: obtainGethWallets_keydir_def split: sum.splits)

lemma obtainParityWallet_keydir_same:
  "obtainParityWallet_keydir h c = obtainParityWallets_keydir h c"
  by (simp add: obtainParityWallet_keydir_def obtainParityWallets_keydir_def)

lemma obtainParityWallets_keydir_other:
  assumes "c \<noteq> MainnetChainID" "c \<noteq> TestnetChainID"
  shows "obtainParityWallets_keydir h c =
     (case homedir_Dir h of
        None \<Rightarrow> Inl FailedHomeDir
      | Some home \<Rightarrow>
          if GOOS h = ''windows'' then Inr (Join (of_string home) parityWindows)
          else if GOOS h = ''darwin'' then
            Inr (Join (of_string home) ''Library/Application Support/io.parity.ethereum/keys'')
          else if GOOS h = ''linux'' then
            Inr (Join (of_string home) ''.local/share/io.parity.ethereum/keys'')
          else Inl UnsupportedOS)"
  using assms by (simp add: obtainParityWallets_keydir_def split: option.splits)

text \<open>
  Claim C10. For a chain identifier that is none of mainnet, testnet, Rinkeby and
  Goerli, the chain adds no failure and no directory: the geth key directory is the
  data directory joined with \<open>keystore\<close>, the same as for mainnet, and the key store
  there is returned; the Parity key directory is the directory of the operating
  system, with nothing appended for the chain.
\<close>

theorem unrecognised_chain_key_directories:
  assumes "c \<noteq> MainnetChainID" "c \<noteq> TestnetChainID" "c \<noteq> RinkebyChainID" "c \<noteq> GoerliChainID"
  shows "obtainGethWallets_keydir h c
           = (case DefaultDataDir h of Inl p \<Rightarrow> Inl p | Inr d \<Rightarrow> Inr (Join d ''keystore''))
       \<and> obtainGethWallets_keydir h c = obtainGethWallets_keydir h MainnetChainID
       \<and> obtainGethWallet_keydir h c = obtainGethWallets_keydir h c
       \<and> obtainGethWallets h c
           = (case DefaultDataDir h of
                Inl p \<Rightarrow> Inl p
              | Inr d \<Rightarrow> Inr (NewKeyStore h (Join d ''keystore'')))
       \<and> obtainParityWallets_keydir h c =
           (case homedir_Dir h of
              None \<Rightarrow> Inl FailedHomeDir
            | Some home \<Rightarrow>
                if GOOS h = ''windows'' then Inr (Join (of_string home) parityWindows)
                else if GOOS h = ''darwin'' then
                  Inr (Join (of_string home)
                         ''Library/Application Support/io.parity.ethereum/keys'')
                else if GOOS h = ''linux'' then
                  Inr (Join (of_string home) ''.local/share/io.parity.ethereum/keys'')
                else Inl UnsupportedOS)
       \<and> obtainParityWallet_keydir h c = obtainParityWallets_keydir h c"
proof -
  note g = obtainGethWallets_keydir_other [OF assms, of h]
  have w: "obtainGethWallets h c
           = (case DefaultDataDir h of
                Inl p \<Rightarrow> Inl p
              | Inr d \<Rightarrow> Inr (NewKeyStore h (Join d ''keystore'')))"
    by (simp add: obtainGethWallets_def g split: sum.splits)
  from g w obtainGethWallet_keydir_other [OF assms, of h]
       obtainGethWallets_keydir_mainnet [of h]
       obtainParityWallets_keydir_other [OF assms(1,2), of h]
       obtainParityWallet_keydir_same [of h c]
  show ?thesis by simp
qed

theorem unrecognised_chain_key_directories_witness:
  "(42::int) \<noteq> MainnetChainID \<and> 42 \<noteq> TestnetChainID \<and> 42 \<noteq> RinkebyChainID
   \<and> 42 \<noteq> GoerliChainID
   \<and> obtainGethWallets_keydir linux_host 42 = Inr [''/home/u'', ''.ethereum'', ''keystore'']
   \<and> obtainGethWallets_keydir linux_host 42 = obtainGethWallets_keydir linux_host MainnetChainID
   \<and> obtainGethWallets linux_host 42 = Inr [keystore_wallet ''geth'' 1]
   \<and> obtainParityWallets_keydir linux_host 42
       = Inr [''/home/u'', ''.local/share/io.parity.ethereum/keys'']"
proof -
  have c: "(42::int) \<noteq> MainnetChainID" "(42::int) \<noteq> TestnetChainID"
          "(42::int) \<noteq> RinkebyChainID" "(42::int) \<noteq> GoerliChainID"
    by (simp_all add: MainnetChainID_def TestnetChainID_def RinkebyChainID_def GoerliChainID_def)
  have ks: "NewKeyStore linux_host [''/home/u'', ''.ethereum'', ''keystore'']
            = [keystore_wallet ''geth'' 1]"
    by (simp add: linux_host_def)
  have os: "GOOS linux_host = ''linux''" "homedir_Dir linux_host = Some ''/home/u''"
    by (simp_all add: linux_host_def)
  from unrecognised_chain_key_directories [OF c, of linux_host] c ks os
       DefaultDataDir_linux_host
  show ?thesis by (auto simp add: Join_def of_string_def)
qed

section \<open>The Parity key directory\<close>

text \<open>
  Claim C8, as stated, at three inputs. On Linux for mainnet the Parity key directory
  ends in \<open>keys/ethereum\<close>: no \<open>keystore\<close> leaf follows. For Goerli nothing is appended
  for the chain. On an operating system that is none of the three, a home directory
  that cannot be found is reported before the operating system is looked at.
\<close>

theorem parity_keystore_leaf_counterexample:
  "obtainParityWallets_keydir linux_host MainnetChainID
     = Inr [''/home/u'', ''.local/share/io.parity.ethereum/keys'', ''ethereum'']
   \<and> obtainParityWallets_keydir linux_host MainnetChainID
     \<noteq> Inr [''/home/u'', ''.local/share/io.parity.ethereum/keys'', ''ethereum'', ''keystore'']
   \<and> obtainParityWallets_keydir linux_host GoerliChainID
     = Inr [''/home/u'', ''.local/share/io.parity.ethereum/keys'']
   \<and> GOOS plan9_host_no_home = ''plan9''
   \<and> obtainParityWallets_keydir plan9_host_no_home MainnetChainID = Inl FailedHomeDir
   \<and> obtainParityWallets_keydir plan9_host_no_home MainnetChainID \<noteq> Inl UnsupportedOS
   \<and> obtainParityWallet_keydir plan9_host_no_home MainnetChainID \<noteq> Inl UnsupportedOS"
  by (simp add: obtainParityWallets_keydir_def obtainParityWallet_keydir_def linux_host_def
        plan9_host_no_home_def MainnetChainID_def TestnetChainID_def GoerliChainID_def
        Join_def of_string_def)

text \<open>
  Claim C8, amended. Parity key directory resolution first needs the home directory
  and fails when it cannot be found. With a home directory it branches on exactly
  three operating systems: the directory is the home directory joined with the
  Windows, the macOS or the Linux element (each ending in \<open>keys\<close>), followed by
  \<open>ethereum\<close> for mainnet, \<open>test\<close> for testnet and nothing for any other chain, with
  no \<open>keystore\<close> leaf; for every other operating system it fails with \<open>Unsupported
  operating system\<close>, in \<open>obtainParityWallet\<close> and \<open>obtainParityWallets\<close> alike.
\<close>

theorem parity_key_directory:
  "(homedir_Dir h = None \<longrightarrow>
      obtainParityWallets_keydir h c = Inl FailedHomeDir
      \<and> obtainParityWallets h c = Inl FailedHomeDir
      \<and> obtainParityWallet h c a = Inl FailedHomeDir)
   \<and> (homedir_Dir h = Some home \<longrightarrow>
      obtainParityWallets_keydir h c =
        (if GOOS h = ''windows'' \<or> GOOS h = ''darwin'' \<or> GOOS h = ''linux'' then
           Inr (Join
             (Join (of_string home)
                (if GOOS h = ''windows'' then parityWindows
                 else if GOOS h = ''darwin'' then
                   ''Library/Application Support/io.parity.ethereum/keys''
                 else ''.local/share/io.parity.ethereum/keys''))
             (if c = MainnetChainID then ''ethereum''
              else if c = TestnetChainID then ''test'' else []))
         else Inl UnsupportedOS)
      \<and> (obtainParityWallets h c = Inl UnsupportedOS)
          = (\<not> (GOOS h = ''windows'' \<or> GOOS h = ''darwin'' \<or> GOOS h = ''linux''))
      \<and> (obtainParityWallet h c a = Inl UnsupportedOS)
          = (\<not> (GOOS h = ''windows'' \<or> GOOS h = ''darwin'' \<or> GOOS h = ''linux'')))
   \<and> obtainParityWallet_keydir h c = obtainParityWallets_keydir h c"
proof (intro conjI impI)
  assume n: "homedir_Dir h = None"
  then show k: "obtainParityWallets_keydir h c = Inl FailedHomeDir"
    by (simp add: obtainParityWallets_keydir_def)
  then show "obtainParityWallets h c = Inl FailedHomeDir"
    by (simp add: obtainParityWallets_def)
  from k show "obtainParityWallet h c a = Inl FailedHomeDir"
    by (simp add: obtainParityWallet_def obtainParityWallet_keydir_same)
next
  assume s: "homedir_Dir h = Some home"
  then show k: "obtainParityWallets_keydir h c =
        (if GOOS h = ''windows'' \<or> GOOS h = ''darwin'' \<or> GOOS h = ''linux'' then
           Inr (Join
             (Join (of_string home)
                (if GOOS h = ''windows'' then parityWindows
                 else if GOOS h = ''darwin'' then
                   ''Library/Application Support/io.parity.ethereum/keys''
                 else ''.local/share/io.parity.ethereum/keys''))
             (if c = MainnetChainID then ''ethereum''
              else if c = TestnetChainID then ''test'' else []))
         else Inl UnsupportedOS)"
    by (simp add: obtainParityWallets_keydir_def Join_def)
  then show "(obtainParityWallets h c = Inl UnsupportedOS)
          = (\<not> (GOOS h = ''windows'' \<or> GOOS h = ''darwin'' \<or> GOOS h = ''linux''))"
    by (simp add: obtainParityWallets_def)
  from k show "(obtainParityWallet h c a = Inl UnsupportedOS)
          = (\<not> (GOOS h = ''windows'' \<or> GOOS h = ''darwin'' \<or> GOOS h = ''linux''))"
    by (simp add: obtainParityWallet_def obtainParityWallet_keydir_same Manager_Find_def
          split: option.splits)
next
  show "obtainParityWallet_keydir h c = obtainParityWallets_keydir h c"
    by (rule obtainParityWallet_keydir_same)
qed

theorem parity_key_directory_witness:
  "homedir_Dir plan9_host_no_home = None
   \<and> obtainParityWallets plan9_host_no_home MainnetChainID = Inl FailedHomeDir
   \<and> homedir_Dir linux_host = Some ''/home/u''
   \<and> obtainParityWallets_keydir linux_host MainnetChainID
       = Inr [''/home/u'', ''.local/share/io.parity.ethereum/keys'', ''ethereum'']
   \<and> obtainParityWallets linux_host MainnetChainID \<noteq> Inl UnsupportedOS
   \<and> homedir_Dir (linux_host\<lparr> GOOS := ''plan9'' \<rparr>) = Some ''/home/u''
   \<and> obtainParityWallets (linux_host\<lparr> GOOS := ''plan9'' \<rparr>) MainnetChainID = Inl UnsupportedOS
   \<and> obtainParityWallet (linux_host\<lparr> GOOS := ''plan9'' \<rparr>) MainnetChainID 2 = Inl UnsupportedOS"
proof -
  have n: "homedir_Dir plan9_host_no_home = None"
    by (simp add: plan9_host_no_home_def)
  have l: "homedir_Dir linux_host = Some ''/home/u''" "GOOS linux_host = ''linux''"
    by (simp_all add: linux_host_def)
  have p: "homedir_Dir (linux_host\<lparr> GOOS := ''plan9'' \<rparr>) = Some ''/home/u''"
          "GOOS (linux_host\<lparr> GOOS := ''plan9'' \<rparr>) = ''plan9''"
    by (simp_all add: linux_host_def)
  from parity_key_directory [where h = plan9_host_no_home and c = MainnetChainID and a = 2] n
  have a: "obtainParityWallets plan9_host_no_home MainnetChainID = Inl FailedHomeDir"
    by simp
  from parity_key_directory [where h = linux_host and home = "''/home/u''" and c = MainnetChainID and a = 2] l
  have b: "obtainParityWallets_keydir linux_host MainnetChainID
            = Inr [''/home/u'', ''.local/share/io.parity.ethereum/keys'', ''ethereum'']
         \<and> obtainParityWallets linux_host MainnetChainID \<noteq> Inl UnsupportedOS"
    by (simp add: Join_def of_string_def)
  from parity_key_directory [where h = "linux_host\<lparr> GOOS := ''plan9'' \<rparr>" and home = "''/home/u''" and c = MainnetChainID and a = 2] p
  have c: "obtainParityWallets (linux_host\<lparr> GOOS := ''plan9'' \<rparr>) MainnetChainID = Inl UnsupportedOS
         \<and> obtainParityWallet (linux_host\<lparr> GOOS := ''plan9'' \<rparr>) MainnetChainID 2 = Inl UnsupportedOS"
    by simp
  from n l p a b c show ?thesis by simp
qed

section \<open>Finding and listing wallets\<close>

lemma Contains_keystore_wallet:
  "Contains (keystore_wallet url a) \<lparr> Address = b, URL = [] \<rparr> = (b = a)"
  by (simp add: Contains_def keystore_wallet_def)

lemma obtainGethWallet_keydir_linux_host:
  "obtainGethWallet_keydir linux_host MainnetChainID = Inr [''/home/u'', ''.ethereum'', ''keystore'']"
  by (simp add: obtainGethWallet_keydir_def DefaultDataDir_linux_host Join_def)

lemma obtainGethWallets_keydir_linux_host:
  "obtainGethWallets_keydir linux_host MainnetChainID = Inr [''/home/u'', ''.ethereum'', ''keystore'']"
  by (simp add: obtainGethWallets_keydir_def DefaultDataDir_linux_host Join_def)

lemma obtainParityWallet_keydir_linux_host:
  "obtainParityWallets_keydir linux_host MainnetChainID
   = Inr [''/home/u'', ''.local/share/io.parity.ethereum/keys'', ''ethereum'']"
  by (simp add: obtainParityWallets_keydir_def linux_host_def Join_def of_string_def)

lemma NewKeyStore_linux_host:
  "NewKeyStore linux_host [''/home/u'', ''.ethereum'', ''keystore''] = [keystore_wallet ''geth'' 1]"
  "NewKeyStore linux_host [''/home/u'', ''.local/share/io.parity.ethereum/keys'', ''ethereum'']
   = [keystore_wallet ''parity'' 2]"
  by (simp_all add: linux_host_def)

lemma Accounts_ledger3:
  "Accounts (openAndDerive 1 ledger3) = [\<lparr> Address = 3, URL = ''ledger'' \<rparr>]"
  by (simp add: openAndDerive_def ledger3_def)

lemma DefaultDataDir_no_hub:
  "DefaultDataDir (h\<lparr> NewLedgerHub := hub, usbwallets := n \<rparr>) = DefaultDataDir h"
  by (simp add: DefaultDataDir_def homeDir_def windowsAppData_def isNonEmptyDir_def Let_def
        cong: if_cong sum.case_cong option.case_cong)

lemma ObtainWallet_no_hub:
  "ObtainWallet (h\<lparr> NewLedgerHub := hub, usbwallets := n \<rparr>) c a = ObtainWallet h c a"
  by (simp add: ObtainWallet_def obtainGethWallet_def obtainGethWallet_keydir_def
        obtainParityWallet_def obtainParityWallet_keydir_def DefaultDataDir_no_hub
        cong: if_cong sum.case_cong option.case_cong)

text \<open>
  Claim C3, as stated, at an address that only the hardware backend holds: the Ledger
  hub of the host lists a wallet that contains the address 3, and \<open>ObtainWallet\<close>
  fails for that address.
\<close>

theorem ObtainWallet_hardware_counterexample:
  "obtainLedgerWallets linux_host MainnetChainID = Inr [openAndDerive 1 ledger3]
   \<and> Contains (openAndDerive 1 ledger3) \<lparr> Address = 3, URL = [] \<rparr>
   \<and> ObtainWallet linux_host MainnetChainID 3 = Inl FailedToObtainWallet"
proof -
  have a: "obtainLedgerWallets linux_host MainnetChainID = Inr [openAndDerive 1 ledger3]"
    by (simp add: obtainLedgerWallets_def linux_host_def)
  have b: "Contains (openAndDerive 1 ledger3) \<lparr> Address = 3, URL = [] \<rparr>"
    by (simp add: Contains_def Accounts_ledger3)
  have c: "ObtainWallet linux_host MainnetChainID 3 = Inl FailedToObtainWallet"
    by (simp add: ObtainWallet_def obtainGethWallet_def obtainGethWallet_keydir_linux_host
          obtainParityWallet_def obtainParityWallet_keydir_same
          obtainParityWallet_keydir_linux_host NewKeyStore_linux_host Manager_Find_def
          Contains_keystore_wallet)
  from a b c show ?thesis by simp
qed

text \<open>
  Claim C3, amended. \<open>ObtainWallet\<close> searches the two local key stores only: it returns
  the first wallet of the geth key store that contains the address; failing that,
  the first such wallet of the Parity key store; failing that, and also when the
  Parity directory cannot be resolved, it fails with \<open>failed to obtain wallet\<close>. The
  hardware hub is never consulted: the result does not depend on it. (Stated for a
  geth key directory that resolves.)
\<close>

theorem ObtainWallet_local_keystores_only:
  assumes "obtainGethWallet_keydir h c = Inr gd"
  shows "ObtainWallet h c a =
           (case find (\<lambda>w. Contains w \<lparr> Address = a, URL = [] \<rparr>) (NewKeyStore h gd) of
              Some w \<Rightarrow> Inr w
            | None \<Rightarrow>
                (case obtainParityWallet_keydir h c of
                   Inl e \<Rightarrow> Inl FailedToObtainWallet
                 | Inr pd \<Rightarrow>
                     (case find (\<lambda>w. Contains w \<lparr> Address = a, URL = [] \<rparr>)
                             (NewKeyStore h pd) of
                        Some w \<Rightarrow> Inr w
                      | None \<Rightarrow> Inl FailedToObtainWallet)))
       \<and> ObtainWallet (h\<lparr> NewLedgerHub := hub, usbwallets := n \<rparr>) c a = ObtainWallet h c a"
  using assms
  by (simp add: ObtainWallet_no_hub)
     (simp add: ObtainWallet_def obtainGethWallet_def obtainParityWallet_def Manager_Find_def
        split: option.splits sum.splits)

theorem ObtainWallet_local_keystores_only_witness:
  "obtainGethWallet_keydir linux_host MainnetChainID = Inr [''/home/u'', ''.ethereum'', ''keystore'']
   \<and> ObtainWallet linux_host MainnetChainID 1 = Inr (keystore_wallet ''geth'' 1)
   \<and> ObtainWallet linux_host MainnetChainID 2 = Inr (keystore_wallet ''parity'' 2)
   \<and> ObtainWallet linux_host MainnetChainID 3 = Inl FailedToObtainWallet
   \<and> ObtainWallet linux_host_no_hub MainnetChainID 2 = ObtainWallet linux_host MainnetChainID 2"
proof -
  note k = obtainGethWallet_keydir_linux_host
  have u: "linux_host\<lparr> NewLedgerHub := None, usbwallets := 1 \<rparr> = linux_host_no_hub"
    by (simp add: linux_host_no_hub_def linux_host_def)
  from ObtainWallet_local_keystores_only [OF k, where a = 1 and hub = None and n = 1]
       ObtainWallet_local_keystores_only [OF k, where a = 2 and hub = None and n = 1]
       ObtainWallet_local_keystores_only [OF k, where a = 3 and hub = None and n = 1] k u
  show ?thesis
    by (simp add: NewKeyStore_linux_host Contains_keystore_wallet
          obtainParityWallet_keydir_same obtainParityWallet_keydir_linux_host)
qed

lemma NewLedgerHub_no_hub: "NewLedgerHub linux_host_no_hub = None"
  by (simp add: linux_host_no_hub_def)

lemma obtainGethWallets_no_hub:
  "obtainGethWallets linux_host_no_hub MainnetChainID = Inr [keystore_wallet ''geth'' 1]"
proof -
  have u: "linux_host_no_hub = linux_host\<lparr> NewLedgerHub := None, usbwallets := 1 \<rparr>"
    by (simp add: linux_host_no_hub_def linux_host_def)
  show ?thesis
    by (simp add: obtainGethWallets_def obtainGethWallets_keydir_def u DefaultDataDir_no_hub
          DefaultDataDir_linux_host Join_def)
       (simp add: linux_host_def)
qed

lemma obtainParityWallets_no_hub:
  "obtainParityWallets linux_host_no_hub MainnetChainID = Inr [keystore_wallet ''parity'' 2]"
proof -
  have ks: "NewKeyStore linux_host_no_hub = NewKeyStore linux_host"
           "homedir_Dir linux_host_no_hub = homedir_Dir linux_host"
           "GOOS linux_host_no_hub = GOOS linux_host"
    by (simp_all add: linux_host_no_hub_def)
  have pk: "obtainParityWallets_keydir linux_host_no_hub MainnetChainID
            = obtainParityWallets_keydir linux_host MainnetChainID"
    by (simp add: obtainParityWallets_keydir_def ks cong: if_cong sum.case_cong option.case_cong)
  show ?thesis
    by (simp add: obtainParityWallets_def pk obtainParityWallet_keydir_linux_host ks
          NewKeyStore_linux_host)
qed

lemma obtainGethWallets_linux_host:
  "obtainGethWallets linux_host MainnetChainID = Inr [keystore_wallet ''geth'' 1]"
  by (simp add: obtainGethWallets_def obtainGethWallets_keydir_linux_host
        NewKeyStore_linux_host)

lemma obtainParityWallets_linux_host:
  "obtainParityWallets linux_host MainnetChainID = Inr [keystore_wallet ''parity'' 2]"
  by (simp add: obtainParityWallets_def obtainParityWallet_keydir_linux_host
        NewKeyStore_linux_host)

text \<open>
  Claim C5, as stated, at a host whose Ledger hub cannot be found: the geth and the
  Parity key stores each list a wallet, and \<open>ObtainWallets\<close> returns the error of the
  hub instead of them.
\<close>

theorem ObtainWallets_hub_failure_counterexample:
  "NewLedgerHub linux_host_no_hub = None
   \<and> obtainGethWallets linux_host_no_hub MainnetChainID = Inr [keystore_wallet ''geth'' 1]
   \<and> obtainParityWallets linux_host_no_hub MainnetChainID = Inr [keystore_wallet ''parity'' 2]
   \<and> ObtainWallets linux_host_no_hub MainnetChainID = Inl LedgerHubError
   \<and> ObtainWallets linux_host_no_hub MainnetChainID
       \<noteq> Inr [keystore_wallet ''geth'' 1, keystore_wallet ''parity'' 2]"
  by (simp add: ObtainWallets_def obtainLedgerWallets_def NewLedgerHub_no_hub
        obtainGethWallets_no_hub obtainParityWallets_no_hub)

text \<open>
  Claim C5, amended. A failure to find the hardware hub aborts \<open>ObtainWallets\<close>: it
  returns an error and no wallet, and when both local key stores were listed that
  error is the hub's. Only when the hub is found is a list returned: the wallets of
  the geth key store, then those of the Parity key store, then those of the hub.
\<close>

theorem ObtainWallets_hub_failure_aborts:
  "(NewLedgerHub h = None \<longrightarrow> isl (ObtainWallets h c))
   \<and> (NewLedgerHub h = None \<and> obtainGethWallets h c = Inr gw
        \<and> obtainParityWallets h c = Inr pw
      \<longrightarrow> ObtainWallets h c = Inl LedgerHubError)
   \<and> (NewLedgerHub h = Some devices \<and> obtainGethWallets h c = Inr gw
        \<and> obtainParityWallets h c = Inr pw
      \<longrightarrow> ObtainWallets h c = Inr (gw @ pw @ map (openAndDerive (usbwallets h)) devices))"
  by (simp add: ObtainWallets_def obtainLedgerWallets_def split: sum.splits)

theorem ObtainWallets_hub_failure_aborts_witness:
  "NewLedgerHub linux_host_no_hub = None
   \<and> obtainGethWallets linux_host_no_hub MainnetChainID = Inr [keystore_wallet ''geth'' 1]
   \<and> obtainParityWallets linux_host_no_hub MainnetChainID = Inr [keystore_wallet ''parity'' 2]
   \<and> isl (ObtainWallets linux_host_no_hub MainnetChainID)
   \<and> ObtainWallets linux_host_no_hub MainnetChainID = Inl LedgerHubError
   \<and> NewLedgerHub linux_host = Some [ledger3]
   \<and> obtainGethWallets linux_host MainnetChainID = Inr [keystore_wallet ''geth'' 1]
   \<and> obtainParityWallets linux_host MainnetChainID = Inr [keystore_wallet ''parity'' 2]
   \<and> ObtainWallets linux_host MainnetChainID
       = Inr [keystore_wallet ''geth'' 1, keystore_wallet ''parity'' 2, openAndDerive 1 ledger3]"
proof -
  note no_hub = NewLedgerHub_no_hub obtainGethWallets_no_hub obtainParityWallets_no_hub
  note g = obtainGethWallets_linux_host
  note p = obtainParityWallets_linux_host
  have hub: "NewLedgerHub linux_host = Some [ledger3]" "usbwallets linux_host = 1"
    by (simp_all add: linux_host_def)
  from ObtainWallets_hub_failure_aborts [where h = linux_host_no_hub and c = MainnetChainID
         and gw = "[keystore_wallet ''geth'' 1]" and pw = "[keystore_wallet ''parity'' 2]"]
       no_hub
  have a: "isl (ObtainWallets linux_host_no_hub MainnetChainID)
         \<and> ObtainWallets linux_host_no_hub MainnetChainID = Inl LedgerHubError"
    by simp
  from ObtainWallets_hub_failure_aborts [where h = linux_host and c = MainnetChainID
         and gw = "[keystore_wallet ''geth'' 1]" and pw = "[keystore_wallet ''parity'' 2]"
         and devices = "[ledger3]"]
       hub g p
  have b: "ObtainWallets linux_host MainnetChainID
       = Inr [keystore_wallet ''geth'' 1, keystore_wallet ''parity'' 2, openAndDerive 1 ledger3]"
    by simp
  from no_hub hub g p a b show ?thesis by simp
qed

section \<open>Resolving the account\<close>

lemma ObtainAccount_range_find:
  "ObtainAccount_range w accs a p =
     (case find (\<lambda>acc. a = Address acc) accs of
        None \<Rightarrow> \<lparr> result = Inl AccountNotFound, sign_requests = [], printed = [] \<rparr>
      | Some acc \<Rightarrow>
          if p = [] then \<lparr> result = Inr acc, sign_requests = [], printed = [] \<rparr>
          else (case SignDataWithPassphrase w acc p ''application/octet-stream''
                       (replicate 32 0) of
                  Inl err \<Rightarrow>
                    \<lparr> result = Inl InvalidPassphrase,
                      sign_requests = [\<lparr> req_account = acc, req_passphrase = p,
                        req_mimeType = ''application/octet-stream'',
                        req_data = replicate 32 0 \<rparr>],
                      printed = [''Verifying passphrase''] \<rparr>
                | Inr signature \<Rightarrow>
                    \<lparr> result = Inr acc,
                      sign_requests = [\<lparr> req_account = acc, req_passphrase = p,
                        req_mimeType = ''application/octet-stream'',
                        req_data = replicate 32 0 \<rparr>],
                      printed = [] \<rparr>))"
proof (induction accs)
  case Nil
  show ?case by simp
next
  case (Cons acc rest)
  show ?case
  proof (cases "a = Address acc")
    case True
    then show ?thesis
      by (simp add: VerifyPassphrase_def split: sum.splits)
  next
    case False
    with Cons show ?thesis by simp
  qed
qed

text \<open>
  Claim C6. \<open>ObtainAccount\<close> looks for the first account of the wallet with the
  address. If there is none it fails with \<open>account not found\<close> and asks for no
  signature. With an empty passphrase the account is returned and no signature is
  asked for. With a non-empty passphrase exactly one signature is asked for, for
  that account and passphrase, over the constant payload of 32 zero bytes with the
  MIME type \<open>application/octet-stream\<close>: a signing error gives \<open>invalid passphrase\<close>
  and no account, a signature gives the account, and the signature itself is
  dropped (it is no part of what the function leaves behind). What is returned and
  printed holds no key material: an account is an address and a URL.
\<close>

theorem ObtainAccount_verifies_passphrase:
  "(find (\<lambda>acc. a = Address acc) (Accounts w) = None \<longrightarrow>
      ObtainAccount w a p
        = \<lparr> result = Inl AccountNotFound, sign_requests = [], printed = [] \<rparr>)
   \<and> (find (\<lambda>acc. a = Address acc) (Accounts w) = Some acc \<and> p = [] \<longrightarrow>
      ObtainAccount w a p = \<lparr> result = Inr acc, sign_requests = [], printed = [] \<rparr>)
   \<and> (find (\<lambda>acc. a = Address acc) (Accounts w) = Some acc \<and> p \<noteq> []
        \<and> SignDataWithPassphrase w acc p ''application/octet-stream'' (replicate 32 0)
            = Inl err \<longrightarrow>
      ObtainAccount w a p
        = \<lparr> result = Inl InvalidPassphrase,
            sign_requests = [\<lparr> req_account = acc, req_passphrase = p,
              req_mimeType = ''application/octet-stream'', req_data = replicate 32 0 \<rparr>],
            printed = [''Verifying passphrase''] \<rparr>)
   \<and> (find (\<lambda>acc. a = Address acc) (Accounts w) = Some acc \<and> p \<noteq> []
        \<and> SignDataWithPassphrase w acc p ''application/octet-stream'' (replicate 32 0)
            = Inr signature \<longrightarrow>
      ObtainAccount w a p
        = \<lparr> result = Inr acc,
            sign_requests = [\<lparr> req_account = acc, req_passphrase = p,
              req_mimeType = ''application/octet-stream'', req_data = replicate 32 0 \<rparr>],
            printed = [] \<rparr>)"
  by (simp add: ObtainAccount_def ObtainAccount_range_find)

theorem ObtainAccount_verifies_passphrase_witness:
  "Accounts (keystore_wallet ''geth'' 1) = [\<lparr> Address = 1, URL = ''geth'' \<rparr>]
   \<and> ObtainAccount (keystore_wallet ''geth'' 1) 5 ''secret''
       = \<lparr> result = Inl AccountNotFound, sign_requests = [], printed = [] \<rparr>
   \<and> ObtainAccount (keystore_wallet ''geth'' 1) 1 []
       = \<lparr> result = Inr \<lparr> Address = 1, URL = ''geth'' \<rparr>, sign_requests = [],
           printed = [] \<rparr>
   \<and> SignDataWithPassphrase (keystore_wallet ''geth'' 1) \<lparr> Address = 1, URL = ''geth'' \<rparr>
         ''wrong'' ''application/octet-stream'' (replicate 32 0) = Inl SignError
   \<and> ObtainAccount (keystore_wallet ''geth'' 1) 1 ''wrong''
       = \<lparr> result = Inl InvalidPassphrase,
           sign_requests = [\<lparr> req_account = \<lparr> Address = 1, URL = ''geth'' \<rparr>,
             req_passphrase = ''wrong'', req_mimeType = ''application/octet-stream'',
             req_data = replicate 32 0 \<rparr>],
           printed = [''Verifying passphrase''] \<rparr>
   \<and> SignDataWithPassphrase (keystore_wallet ''geth'' 1) \<lparr> Address = 1, URL = ''geth'' \<rparr>
         ''secret'' ''application/octet-stream'' (replicate 32 0) = Inr [1]
   \<and> ObtainAccount (keystore_wallet ''geth'' 1) 1 ''secret''
       = \<lparr> result = Inr \<lparr> Address = 1, URL = ''geth'' \<rparr>,
           sign_requests = [\<lparr> req_account = \<lparr> Address = 1, URL = ''geth'' \<rparr>,
             req_passphrase = ''secret'', req_mimeType = ''application/octet-stream'',
             req_data = replicate 32 0 \<rparr>],
           printed = [] \<rparr>"
proof -
  let ?w = "keystore_wallet ''geth'' 1"
  let ?acc = "\<lparr> Address = 1, URL = ''geth'' \<rparr>"
  have accs: "Accounts ?w = [?acc]" by (simp add: keystore_wallet_def)
  have none: "find (\<lambda>acc. 5 = Address acc) (Accounts ?w) = None"
    by (simp add: accs)
  have some: "find (\<lambda>acc. 1 = Address acc) (Accounts ?w) = Some ?acc"
    by (simp add: accs)
  have wrong: "SignDataWithPassphrase ?w ?acc ''wrong'' ''application/octet-stream''
                 (replicate 32 0) = Inl SignError"
    by (simp add: keystore_wallet_def)
  have right: "SignDataWithPassphrase ?w ?acc ''secret'' ''application/octet-stream''
                 (replicate 32 0) = Inr [1]"
    by (simp add: keystore_wallet_def)
  from ObtainAccount_verifies_passphrase [where w = ?w and a = 5 and p = "''secret''"] none
  have a: "ObtainAccount ?w 5 ''secret''
       = \<lparr> result = Inl AccountNotFound, sign_requests = [], printed = [] \<rparr>"
    by blast
  from ObtainAccount_verifies_passphrase [where w = ?w and a = 1 and p = "[]" and acc = ?acc] some
  have b: "ObtainAccount ?w 1 [] = \<lparr> result = Inr ?acc, sign_requests = [], printed = [] \<rparr>"
    by blast
  have ne: "''wrong'' \<noteq> []" "''secret'' \<noteq> []" by simp_all
  from ObtainAccount_verifies_passphrase [where w = ?w and a = 1 and p = "''wrong''"
         and acc = ?acc and err = SignError] some wrong ne
  have c: "ObtainAccount ?w 1 ''wrong''
       = \<lparr> result = Inl InvalidPassphrase,
           sign_requests = [\<lparr> req_account = ?acc,
             req_passphrase = ''wrong'', req_mimeType = ''application/octet-stream'',
             req_data = replicate 32 0 \<rparr>],
           printed = [''Verifying passphrase''] \<rparr>"
    by blast
  from ObtainAccount_verifies_passphrase [where w = ?w and a = 1 and p = "''secret''"
         and acc = ?acc and signature = "[1]"] some right ne
  have d: "ObtainAccount ?w 1 ''secret''
       = \<lparr> result = Inr ?acc,
           sign_requests = [\<lparr> req_account = ?acc,
             req_passphrase = ''secret'', req_mimeType = ''application/octet-stream'',
             req_data = replicate 32 0 \<rparr>],
           printed = [] \<rparr>"
    by blast
  from accs wrong right a b c d show ?thesis by blast
qed

end
